theory Spec2Isabelle
  imports Complex_Main
begin

section \<open>Data model\<close>

text \<open>
  The models are Mongoose schemas. A JavaScript \<open>Number\<close> that holds a count is a
  \<open>nat\<close>, a \<open>Date\<close> is its millisecond timestamp (an \<open>int\<close>), and a \<open>Number\<close> that takes
  part in a division or in a product with a decimal weight is a \<open>real\<close>: the arithmetic of
  the scores is the exact one, not the rounding of IEEE doubles. An \<open>ObjectId\<close> is the
  string it prints as. Documents are taken to conform to their schema (arrays are arrays,
  counters are numbers, dates are dates).
\<close>

type_synonym objectId = string
type_synonym date = int

datatype postStatus = Draft | Published | Archived | Flagged | Deleted

datatype postType = Summary | Question | Idea | Mindmap | Resource | Discussion

text \<open>
  \<open>rating.details\<close> has the five fixed keys 1 to 5, each a counter with default 0; the
  record field is the lookup \<open>details[k]\<close>, and the keys are listed by \<open>detailKeys\<close>.
\<close>

record rating =
  average :: real
  count :: nat
  details :: "int \<Rightarrow> nat"

record viewEntry =
  userId :: objectId
  viewedAt :: date

text \<open>
  \<open>commentsCount\<close> is a populated virtual: \<open>None\<close> is JavaScript's \<open>undefined\<close> of a
  document that was not populated. \<open>titleModified\<close> is Mongoose's \<open>isModified('title')\<close>.
  \<open>excerpt\<close> and \<open>authorAvatar\<close> have no default, so they may be absent.
\<close>

record post =
  post_id :: objectId
  title :: string
  slug :: string
  content :: string
  excerpt :: "string option"
  author :: objectId
  authorName :: string
  authorAvatar :: "string option"
  postType :: postType
  subject :: string
  tags :: "string list"
  likes :: "objectId list"
  saves :: "objectId list"
  views :: nat
  viewHistory :: "viewEntry list"
  rating :: rating
  status :: postStatus
  publishedAt :: date
  lastActivity :: date
  isSolved :: bool
  acceptedAnswer :: "objectId option"
  commentsCount :: "nat option"
  titleModified :: bool

record user =
  user_id :: objectId
  displayName :: string
  avatar :: string
  stats_postsCount :: nat
  stats_commentsCount :: nat

section \<open>Post: virtuals\<close>

definition likesCount :: "post \<Rightarrow> nat" where
  "likesCount p = length (likes p)"

definition savesCount :: "post \<Rightarrow> nat" where
  "savesCount p = length (saves p)"

text \<open>\<open>this.commentsCount || 0\<close>: \<open>undefined\<close> and 0 both give 0.\<close>

definition commentsCountOr0 :: "post \<Rightarrow> nat" where
  "commentsCountOr0 p = (case commentsCount p of None \<Rightarrow> 0 | Some n \<Rightarrow> n)"

definition popularityScore :: "post \<Rightarrow> real" where
  "popularityScore p =
     (let likesWeight = real (likesCount p) * 2;
          savesWeight = real (savesCount p) * 3;
          commentsWeight = real (commentsCountOr0 p) * 1.5;
          viewsWeight = real (views p) * 0.1;
          ratingWeight = average (rating p) * 20
      in likesWeight + savesWeight + commentsWeight + viewsWeight + ratingWeight)"

section \<open>Post: the save hooks\<close>

text \<open>\<open>Date.now().toString()\<close>: the decimal numeral of the clock reading.\<close>

function decimal :: "nat \<Rightarrow> string" where
  "decimal n =
     (if n < 10 then [''0123456789'' ! n]
      else decimal (n div 10) @ [''0123456789'' ! (n mod 10)])"
  by pat_completeness auto
termination
  by (relation "measure (\<lambda>n. n)") auto

definition numberToString :: "int \<Rightarrow> string" where
  "numberToString n = (if n < 0 then CHR ''-'' # decimal (nat (- n)) else decimal (nat n))"

text \<open>\<open>s.slice(-k)\<close>: the last \<open>k\<close> characters, the whole string when it is shorter.\<close>

definition sliceLast :: "nat \<Rightarrow> string \<Rightarrow> string" where
  "sliceLast k s = drop (length s - k) s"

text \<open>\<open>!this.excerpt\<close>: an absent or an empty string is falsy.\<close>

definition falsyString :: "string option \<Rightarrow> bool" where
  "falsyString s = (case s of None \<Rightarrow> True | Some t \<Rightarrow> t = [])"

text \<open>
  \<open>postSchema.pre('save')\<close>. The package \<open>slugify\<close> (called with \<open>lower\<close>, \<open>strict\<close> and
  the locale \<open>ar\<close>) is a parameter. The hook reads the clock twice; the model has one
  reading \<open>now\<close>.
\<close>

definition postPreSave :: "(string \<Rightarrow> string) \<Rightarrow> date \<Rightarrow> post \<Rightarrow> post" where
  "postPreSave slugify now p =
     (let p1 = (if titleModified p
                then (let timestamp = sliceLast 5 (numberToString now)
                      in p\<lparr>slug := slugify (title p @ '' '' @ timestamp)\<rparr>)
                else p);
          p2 = (if falsyString (excerpt p1) \<and> content p1 \<noteq> []
                then p1\<lparr>excerpt := Some (take 200 (content p1) @ ''...'')\<rparr>
                else p1)
      in p2\<lparr>lastActivity := now\<rparr>)"

text \<open>\<open>Model.updateOne(filter, update)\<close>: the first document that matches is updated.\<close>

fun updateOne :: "('a \<Rightarrow> bool) \<Rightarrow> ('a \<Rightarrow> 'a) \<Rightarrow> 'a list \<Rightarrow> 'a list" where
  "updateOne f g [] = []"
| "updateOne f g (x # xs) = (if f x then g x # xs else x # updateOne f g xs)"

text \<open>\<open>postSchema.post('save')\<close>: the author's \<open>stats.postsCount\<close> is incremented.\<close>

definition postPostSave :: "user list \<Rightarrow> post \<Rightarrow> user list" where
  "postPostSave users doc =
     (if status doc = Published
      then updateOne (\<lambda>u. user_id u = author doc)
             (\<lambda>u. u\<lparr>stats_postsCount := stats_postsCount u + 1\<rparr>) users
      else users)"

text \<open>
  \<open>this.save()\<close> on a post: the pre-save hook, the write (after which no path counts as
  modified), the post-save hook. The state is the document and the user collection.
  Schema validation is taken to pass, as it does for a document that conforms to the
  schema.
\<close>

fun postSave :: "(string \<Rightarrow> string) \<Rightarrow> date \<Rightarrow> post \<times> user list \<Rightarrow> post \<times> user list" where
  "postSave slugify now (p, users) =
     (let doc = (postPreSave slugify now p)\<lparr>titleModified := False\<rparr>
      in (doc, postPostSave users doc))"

section \<open>Post: methods\<close>

text \<open>
  \<open>incrementViews(userId = null)\<close>. \<open>None\<close> is \<open>null\<close>; an empty string is falsy as well.
  \<open>find\<close> returns the first matching history entry. The method reads the clock for every
  history entry and once more for the new entry; the model has one reading \<open>now\<close>.
\<close>

fun incrementViews ::
  "(string \<Rightarrow> string) \<Rightarrow> date \<Rightarrow> objectId option \<Rightarrow> post \<times> user list \<Rightarrow> post \<times> user list" where
  "incrementViews slugify now uid (p, users) =
     (let p1 = p\<lparr>views := views p + 1\<rparr>;
          p2 = (case uid of
                  None \<Rightarrow> p1
                | Some u \<Rightarrow>
                    if u = [] then p1
                    else (let recentView =
                                find (\<lambda>view. userId view = u
                                        \<and> now - viewedAt view < 24 * 60 * 60 * 1000)
                                  (viewHistory p1)
                          in if recentView = None
                             then p1\<lparr>viewHistory :=
                                       viewHistory p1 @ [\<lparr>userId = u, viewedAt = now\<rparr>]\<rparr>
                             else p1))
      in postSave slugify now (p2, users))"

datatype error =
    Error string
  | ValidationError string
  | InvalidStateError string
  | MongoServerError string

text \<open>\<open>Math.round\<close> rounds half up; the setter of \<open>rating.average\<close> keeps one decimal.\<close>

definition mathRound :: "real \<Rightarrow> int" where
  "mathRound x = \<lfloor>x + 1 / 2\<rfloor>"

definition averageSetter :: "real \<Rightarrow> real" where
  "averageSetter val = real_of_int (mathRound (val * 10)) / 10"

definition detailKeys :: "int list" where
  "detailKeys = [1, 2, 3, 4, 5]"

definition objectValues :: "(int \<Rightarrow> nat) \<Rightarrow> nat list" where
  "objectValues d = map d detailKeys"

definition objectEntries :: "(int \<Rightarrow> nat) \<Rightarrow> (int \<times> nat) list" where
  "objectEntries d = map (\<lambda>k. (k, d k)) detailKeys"

text \<open>
  \<open>addRating(userId, ratingValue)\<close>, with an integer rating value. The result is the
  outcome (the thrown error, or nothing) and the state the call leaves. \<open>reduce\<close> is
  \<open>foldl\<close>. Every key of \<open>details\<close> has a value, so \<open>details[ratingValue] || 0\<close> is the
  lookup.
\<close>

fun addRating ::
  "(string \<Rightarrow> string) \<Rightarrow> date \<Rightarrow> objectId \<Rightarrow> int \<Rightarrow> post \<times> user list
     \<Rightarrow> (error + unit) \<times> (post \<times> user list)" where
  "addRating slugify now uid ratingValue (p, users) =
     (if ratingValue < 1 \<or> ratingValue > 5
      then (Inl (Error ''Rating must be between 1 and 5''), (p, users))
      else (let oldRating = details (rating p) ratingValue;
                details1 = (details (rating p))(ratingValue := oldRating + 1);
                totalRatings = foldl (\<lambda>a b. a + b) 0 (objectValues details1);
                sumRatings = foldl (\<lambda>sum (stars, n). sum + stars * int n) 0
                               (objectEntries details1);
                r = (rating p)\<lparr>details := details1,
                       average := averageSetter (real_of_int sumRatings / real totalRatings),
                       count := totalRatings\<rparr>
            in (Inr (), postSave slugify now (p\<lparr>rating := r\<rparr>, users))))"

section \<open>Post: the trending aggregation\<close>

text \<open>The \<open>$addFields\<close> stages of the pipeline of \<open>getTrending\<close>.\<close>

definition score :: "post \<Rightarrow> real" where
  "score p = real (length (likes p)) * 2 + real (length (saves p)) * 3
             + real (views p) * 0.1 + average (rating p) * 20"

definition recency :: "date \<Rightarrow> post \<Rightarrow> real" where
  "recency now p = real_of_int (now - publishedAt p) / (1000 * 60 * 60 * 24)"

definition trendingScore :: "date \<Rightarrow> post \<Rightarrow> real" where
  "trendingScore now p = score p / (1 + recency now p)"

text \<open>
  \<open>$match\<close>: published posts; the subject is matched only when the argument is truthy
  (\<open>if (subject)\<close>), so neither \<open>null\<close> nor the empty string filters.
\<close>

definition matchStage :: "string option \<Rightarrow> post list \<Rightarrow> post list" where
  "matchStage subj posts =
     filter (\<lambda>p. status p = Published
                \<and> (if falsyString subj then True else Some (subject p) = subj)) posts"

text \<open>
  \<open>$lookup\<close> joins the users whose \<open>_id\<close> is the post's author, and \<open>$unwind\<close> emits one
  document per joined user: a post whose author is not in the collection is dropped.
\<close>

definition lookupUnwind :: "user list \<Rightarrow> post list \<Rightarrow> (post \<times> user) list" where
  "lookupUnwind users docs =
     concat (map (\<lambda>p. map (\<lambda>u. (p, u)) (filter (\<lambda>u. user_id u = author p) users)) docs)"

text \<open>
  \<open>$project\<close>. \<open>commentsCount\<close> and \<open>readTime\<close> are virtuals, no stored field: the
  projection has nothing to copy for them.
\<close>

record trendingItem =
  t_id :: objectId
  t_title :: string
  t_slug :: string
  t_excerpt :: "string option"
  t_postType :: postType
  t_subject :: string
  t_authorName :: string
  t_authorAvatar :: string
  t_likesCount :: nat
  t_savesCount :: nat
  t_views :: nat
  t_rating :: rating
  t_publishedAt :: date
  t_tags :: "string list"

fun projectStage :: "post \<times> user \<Rightarrow> trendingItem" where
  "projectStage (p, authorDetails) =
     \<lparr>t_id = post_id p, t_title = title p, t_slug = slug p, t_excerpt = excerpt p,
      t_postType = postType p, t_subject = subject p, t_authorName = authorName p,
      t_authorAvatar = avatar authorDetails,
      t_likesCount = length (likes p), t_savesCount = length (saves p),
      t_views = views p, t_rating = rating p, t_publishedAt = publishedAt p,
      t_tags = tags p\<rparr>"

text \<open>
  \<open>getTrending(limit = 10, subject = null)\<close>: the pipeline up to \<open>$unwind\<close>, over the
  post and user collections. The limit goes into the \<open>$limit\<close> stage as it is given.
  MongoDB rejects a \<open>$limit\<close> that is not positive when it parses the pipeline, and
  \<open>$divide\<close> fails on a zero divisor. \<open>$sort\<close> with \<open>-1\<close> is descending; the model sorts
  stably.
\<close>

definition getTrendingDocs ::
  "date \<Rightarrow> user list \<Rightarrow> post list \<Rightarrow> int \<Rightarrow> string option \<Rightarrow> error + (post \<times> user) list" where
  "getTrendingDocs now users posts limit subj =
     (if limit \<le> 0 then Inl (MongoServerError ''the limit must be positive'')
      else (let matched = matchStage subj posts
            in if \<exists>p \<in> set matched. 1 + recency now p = 0
               then Inl (MongoServerError ''cannot $divide by zero'')
               else Inr (lookupUnwind users
                           (take (nat limit)
                              (sort_key (\<lambda>p. - trendingScore now p) matched)))))"

definition getTrending ::
  "date \<Rightarrow> user list \<Rightarrow> post list \<Rightarrow> int \<Rightarrow> string option \<Rightarrow> error + trendingItem list" where
  "getTrending now users posts limit subj =
     (case getTrendingDocs now users posts limit subj of
        Inl e \<Rightarrow> Inl e
      | Inr docs \<Rightarrow> Inr (map projectStage docs))"

section \<open>Comment\<close>

datatype commentStatus = Active | CommentDeleted | CommentFlagged | Hidden

record editEntry =
  e_content :: string
  editedAt :: date
  reason :: string

text \<open>
  The comment schema. \<open>isNew\<close> and \<open>contentModified\<close> are Mongoose's \<open>isNew\<close> and
  \<open>isModified('content')\<close>; \<open>previousContent\<close> is the property \<open>_previousContent\<close> of the
  document object, which is no schema path: it is absent unless a caller has set it.
\<close>

record comment =
  comment_id :: objectId
  c_content :: string
  c_author :: objectId
  c_authorName :: string
  c_post :: objectId
  parentComment :: "objectId option"
  depth :: nat
  c_likes :: "objectId list"
  c_status :: commentStatus
  isAcceptedAnswer :: bool
  edited :: bool
  editHistory :: "editEntry list"
  isNew :: bool
  contentModified :: bool
  previousContent :: "string option"

text \<open>\<open>this._previousContent || this.content\<close>: an absent or empty string is falsy.\<close>

definition previousOrCurrent :: "comment \<Rightarrow> string" where
  "previousOrCurrent c =
     (case previousContent c of
        None \<Rightarrow> c_content c
      | Some s \<Rightarrow> if s = [] then c_content c else s)"

text \<open>\<open>commentSchema.pre('save')\<close>.\<close>

definition commentPreSave :: "date \<Rightarrow> comment \<Rightarrow> comment" where
  "commentPreSave now c =
     (let c1 = (if parentComment c \<noteq> None then c\<lparr>depth := 1\<rparr> else c);
          c2 = (if contentModified c1 \<and> \<not> isNew c1
                then c1\<lparr>edited := True,
                        editHistory := editHistory c1 @
                          [\<lparr>e_content = previousOrCurrent c1, editedAt = now,
                            reason = ''User edit''\<rparr>]\<rparr>
                else c1)
      in c2)"

text \<open>
  \<open>commentSchema.post('save')\<close>, as far as the source has it: the post's \<open>lastActivity\<close>
  and the author's \<open>stats.commentsCount\<close>. The state is the post and user collections.
\<close>

fun commentPostSave :: "date \<Rightarrow> comment \<Rightarrow> post list \<times> user list \<Rightarrow> post list \<times> user list" where
  "commentPostSave now doc (posts, users) =
     (let posts1 = updateOne (\<lambda>p. post_id p = c_post doc) (\<lambda>p. p\<lparr>lastActivity := now\<rparr>) posts;
          users1 = (if c_status doc = Active
                    then updateOne (\<lambda>u. user_id u = c_author doc)
                           (\<lambda>u. u\<lparr>stats_commentsCount := stats_commentsCount u + 1\<rparr>) users
                    else users)
      in (posts1, users1))"

text \<open>
  The validators that the comment schema declares: \<open>content\<close> is required, with
  \<open>minlength\<close> 1 and \<open>maxlength\<close> 2000, \<open>authorName\<close> is required, and \<open>depth\<close> has
  \<open>max\<close> 5. The references \<open>author\<close> and \<open>post\<close> are present in every document of the
  model. \<open>content\<close> is the value that the schema's setter has stored.
\<close>

definition commentValid :: "comment \<Rightarrow> bool" where
  "commentValid c =
     (c_content c \<noteq> [] \<and> 1 \<le> length (c_content c) \<and> length (c_content c) \<le> 2000
      \<and> c_authorName c \<noteq> [] \<and> depth c \<le> 5)"

text \<open>
  \<open>this.save()\<close> on a comment: validation, which Mongoose runs before the hooks that the
  schema registers, then the pre-save hook, the write (after which the document is neither
  new nor modified), and the post-save hook as far as the source has it.
\<close>

definition commentSave ::
  "date \<Rightarrow> comment \<Rightarrow> post list \<times> user list
     \<Rightarrow> error + comment \<times> (post list \<times> user list)" where
  "commentSave now c st =
     (if \<not> commentValid c then Inl (ValidationError ''Comment validation failed'')
      else (let doc = commentPreSave now c
            in Inr (doc\<lparr>isNew := False, contentModified := False\<rparr>,
                    commentPostSave now doc st)))"

text \<open>
  Modelled from the spec: \<open>acceptAnswer\<close>, which no source file defines. From the spec: it
  is valid only for a post of type question and fails with an invalid-state error when the
  comment does not belong to the post; it unsets \<open>isAcceptedAnswer\<close> on every comment of
  the post that had it, sets it on the given comment, and sets \<open>post.isSolved\<close>. The state
  is the post and the comment collection; the given comment is found by its \<open>_id\<close>.
\<close>

definition acceptAnswer ::
  "comment \<Rightarrow> post \<times> comment list \<Rightarrow> (error + unit) \<times> (post \<times> comment list)" where
  "acceptAnswer c st =
     (case st of (p, comments) \<Rightarrow>
        if postType p \<noteq> Question then (Inl (InvalidStateError ''not a question''), st)
        else if c_post c \<noteq> post_id p then (Inl (InvalidStateError ''other post''), st)
        else (let unset = map (\<lambda>d. if c_post d = post_id p \<and> isAcceptedAnswer d
                                     then d\<lparr>isAcceptedAnswer := False\<rparr> else d) comments;
                  marked = map (\<lambda>d. if comment_id d = comment_id c
                                      then d\<lparr>isAcceptedAnswer := True\<rparr> else d) unset
              in (Inr (), (p\<lparr>isSolved := True\<rparr>, marked))))"

text \<open>A sequence of calls: a call that fails leaves the state as it was.\<close>

fun acceptAnswers :: "comment list \<Rightarrow> post \<times> comment list \<Rightarrow> post \<times> comment list" where
  "acceptAnswers [] st = st"
| "acceptAnswers (c # cs) st = acceptAnswers cs (snd (acceptAnswer c st))"

text \<open>The comments of a post that are marked as its accepted answer.\<close>

definition acceptedOf :: "post \<Rightarrow> comment list \<Rightarrow> comment list" where
  "acceptedOf p comments =
     filter (\<lambda>d. c_post d = post_id p \<and> isAcceptedAnswer d) comments"

text \<open>What a successful \<open>acceptAnswer\<close> does to one comment of the collection.\<close>

definition acceptStep :: "comment \<Rightarrow> post \<Rightarrow> comment \<Rightarrow> comment" where
  "acceptStep c p d =
     (let d1 = (if c_post d = post_id p \<and> isAcceptedAnswer d
                then d\<lparr>isAcceptedAnswer := False\<rparr> else d)
      in if comment_id d1 = comment_id c then d1\<lparr>isAcceptedAnswer := True\<rparr> else d1)"

text \<open>
  The invariant of the accepted answer: comment ids are unique, and at most one comment of
  the post is marked.
\<close>

definition answerInv :: "post \<times> comment list \<Rightarrow> bool" where
  "answerInv st = (distinct (map comment_id (snd st))
                    \<and> length (acceptedOf (fst st) (snd st)) \<le> 1)"

section \<open>Example documents\<close>

definition exampleUser :: user where
  "exampleUser = \<lparr>user_id = ''u1'', displayName = ''Amal'', avatar = ''a.png'',
                   stats_postsCount = 1, stats_commentsCount = 0\<rparr>"

text \<open>A published post with 3 likes, 2 saves, 50 views, two ratings (4 and 5) and 4 comments.\<close>

definition examplePost :: post where
  "examplePost =
     \<lparr>post_id = ''p1'', title = ''Limits'', slug = ''limits-00000'',
      content = ''What is a limit?'', excerpt = None, author = ''u1'',
      authorName = ''Amal'', authorAvatar = None, postType = Question,
      subject = ''math'', tags = [], likes = [''u2'', ''u3'', ''u4''],
      saves = [''u2'', ''u3''], views = 50,
      viewHistory = [\<lparr>userId = ''u2'', viewedAt = 1000\<rparr>],
      rating = \<lparr>average = 4.5, count = 2,
                details = (\<lambda>k. if k = 4 \<or> k = 5 then 1 else 0)\<rparr>,
      status = Published, publishedAt = 0, lastActivity = 0, isSolved = False,
      acceptedAnswer = None, commentsCount = Some 4, titleModified = False\<rparr>"

text \<open>The same post with the histogram {5: 2}.\<close>

definition ratedPost :: post where
  "ratedPost = examplePost\<lparr>rating := \<lparr>average = 5, count = 2,
                                        details = (\<lambda>k. if k = 5 then 2 else 0)\<rparr>\<rparr>"

definition exampleComment :: comment where
  "exampleComment =
     \<lparr>comment_id = ''c1'', c_content = ''old'', c_author = ''u2'', c_authorName = ''Badr'',
      c_post = ''p1'', parentComment = None, depth = 0, c_likes = [], c_status = Active,
      isAcceptedAnswer = False, edited = False, editHistory = [], isNew = False,
      contentModified = False, previousContent = None\<rparr>"



text \<open>
  The example comment after the assignment of the content "new": its stored content was
  "old", and \<open>_previousContent\<close> has not been set.
\<close>

definition editedComment :: comment where
  "editedComment = exampleComment\<lparr>c_content := ''new'', contentModified := True\<rparr>"

definition otherComment :: comment where
  "otherComment = exampleComment\<lparr>comment_id := ''c2'', isAcceptedAnswer := True\<rparr>"

section \<open>Properties\<close>

subsection \<open>What a save leaves alone, and what the methods return\<close>

lemma slug_timestamp_example: "sliceLast 5 (numberToString 1700000000123) = ''00123''"
  by (simp add: sliceLast_def numberToString_def)

lemma postSave_lastActivity: "lastActivity (fst (postSave slugify now (p, users))) = now"
  by (simp add: postPreSave_def Let_def)

lemma postSave_views: "views (fst (postSave slugify now (p, users))) = views p"
  by (simp add: postPreSave_def Let_def)

lemma postSave_viewHistory: "viewHistory (fst (postSave slugify now (p, users))) = viewHistory p"
  by (simp add: postPreSave_def Let_def)

lemma postSave_rating: "rating (fst (postSave slugify now (p, users))) = rating p"
  by (simp add: postPreSave_def Let_def)

lemma find_None_iff_all: "(find P xs = None) = (\<forall>x \<in> set xs. \<not> P x)"
  by (induction xs) auto

lemma incrementViews_lastActivity:
  "lastActivity (fst (incrementViews slugify now uid (p, users))) = now"
  by (simp add: Let_def postSave_lastActivity del: postSave.simps)

lemma addRating_lastActivity:
  "1 \<le> v \<Longrightarrow> v \<le> 5 \<Longrightarrow>
   lastActivity (fst (snd (addRating slugify now uid v (p, users)))) = now"
  by (simp add: Let_def postSave_lastActivity del: postSave.simps)

lemma addRating_outcome:
  "fst (addRating slugify now uid v (p, users)) =
     (if v < 1 \<or> 5 < v then Inl (Error ''Rating must be between 1 and 5'') else Inr ())"
  by (simp add: Let_def del: postSave.simps)

lemma addRating_failure_state:
  "v < 1 \<or> 5 < v \<Longrightarrow> snd (addRating slugify now uid v (p, users)) = (p, users)"
  by auto

declare addRating.simps [simp del] incrementViews.simps [simp del] postSave.simps [simp del]

lemma addRating_rating:
  "1 \<le> v \<Longrightarrow> v \<le> 5 \<Longrightarrow>
   rating (fst (snd (addRating slugify now uid v (p, users)))) =
     (let d = (details (rating p))(v := details (rating p) v + 1);
          total = d 1 + d 2 + d 3 + d 4 + d 5;
          weighted = 1 * int (d 1) + 2 * int (d 2) + 3 * int (d 3) + 4 * int (d 4) + 5 * int (d 5)
      in (rating p)\<lparr>details := d,
            average := averageSetter (real_of_int weighted / real total),
            count := total\<rparr>)"
  by (simp add: addRating.simps Let_def postSave_rating objectValues_def objectEntries_def
        detailKeys_def del: fun_upd_apply)

lemma averageSetter_round: "averageSetter x = real_of_int (round (10 * x)) / 10"
  by (simp add: averageSetter_def mathRound_def round_def mult.commute)

text \<open>
  The average that \<open>addRating\<close> stores lies between 1 and 5, within the bounds \<open>min: 0\<close>
  and \<open>max: 5\<close> that the schema validates on save.
\<close>

lemma averageSetter_bounds:
  assumes "1 \<le> x" and "x \<le> 5"
  shows "1 \<le> averageSetter x \<and> averageSetter x \<le> 5"
proof -
  have "round (10::real) \<le> round (10 * x)"
    using assms by (intro round_mono) simp
  moreover have "round (10 * x) \<le> round (50::real)"
    using assms by (intro round_mono) simp
  ultimately have "10 \<le> round (10 * x) \<and> round (10 * x) \<le> 50"
    by simp
  then show ?thesis
    by (simp add: averageSetter_round)
qed

lemma addRating_average_bounds:
  assumes "1 \<le> v" and "v \<le> 5"
  shows "1 \<le> average (rating (fst (snd (addRating slugify now uid v (p, users)))))
    \<and> average (rating (fst (snd (addRating slugify now uid v (p, users))))) \<le> 5"
proof -
  define d where "d = (details (rating p))(v := details (rating p) v + 1)"
  define total where "total = d 1 + d 2 + d 3 + d 4 + d 5"
  define weighted where
    "weighted = 1 * int (d 1) + 2 * int (d 2) + 3 * int (d 3) + 4 * int (d 4) + 5 * int (d 5)"
  have v: "v = 1 \<or> v = 2 \<or> v = 3 \<or> v = 4 \<or> v = 5"
    using assms by arith
  have "0 < d v"
    by (simp add: d_def)
  then have pos: "0 < total"
    using v unfolding total_def by auto
  have lo: "int total \<le> weighted" and hi: "weighted \<le> 5 * int total"
    by (simp_all add: total_def weighted_def)
  have q1: "1 \<le> real_of_int weighted / real total"
    using pos lo by (simp add: le_divide_eq)
  have q5: "real_of_int weighted / real total \<le> 5"
    using pos hi by (simp add: divide_le_eq)
  have "average (rating (fst (snd (addRating slugify now uid v (p, users)))))
      = averageSetter (real_of_int weighted / real total)"
    by (simp add: addRating_rating [OF assms] Let_def d_def total_def weighted_def
          del: fun_upd_apply)
  then show ?thesis
    using averageSetter_bounds [OF q1 q5] by simp
qed

subsection \<open>Popularity score\<close>

text \<open>
  C1. The popularity score of a post is likeCount*2 + saveCount*3 + commentCount*1.5 +
  views*0.1 + rating.average*20, where the comment count is the populated
  \<open>commentsCount\<close> (0 when it is not populated); a post with 3 likes, 2 saves, 50 views,
  average rating 4.5 and 4 comments has score 113.
\<close>

theorem popularityScore_formula:
  "popularityScore p =
     real (length (likes p)) * 2 + real (length (saves p)) * 3
     + real (case commentsCount p of None \<Rightarrow> 0 | Some n \<Rightarrow> n) * 1.5
     + real (views p) * 0.1 + average (rating p) * 20
   \<and> (length (likes p) = 3 \<and> length (saves p) = 2 \<and> views p = 50
        \<and> average (rating p) = 4.5 \<and> commentsCount p = Some 4
      \<longrightarrow> popularityScore p = 113)"
  by (simp add: popularityScore_def likesCount_def savesCount_def commentsCountOr0_def)

theorem popularityScore_formula_witness:
  "length (likes examplePost) = 3 \<and> length (saves examplePost) = 2 \<and> views examplePost = 50
   \<and> average (rating examplePost) = 4.5 \<and> commentsCount examplePost = Some 4
   \<and> popularityScore examplePost = 113"
  using popularityScore_formula [of examplePost] by (simp add: examplePost_def)

subsection \<open>Trending\<close>

lemma fst_lookupUnwind: "d \<in> set (lookupUnwind users docs) \<Longrightarrow> fst d \<in> set docs"
  by (auto simp add: lookupUnwind_def)

lemma lookupUnwind_Nil [simp]: "lookupUnwind users [] = []"
  by (simp add: lookupUnwind_def)

lemma lookupUnwind_Cons:
  "lookupUnwind users (p # ps) =
     map (\<lambda>u. (p, u)) (filter (\<lambda>u. user_id u = author p) users) @ lookupUnwind users ps"
  by (simp add: lookupUnwind_def)

lemma sorted_same_key: "sorted (map (\<lambda>u. k) us)"
  by (induction us) auto

lemma sorted_lookupUnwind:
  fixes k :: "post \<Rightarrow> real"
  shows "sorted (map k docs) \<Longrightarrow> sorted (map (\<lambda>d. k (fst d)) (lookupUnwind users docs))"
proof (induction docs)
  case Nil
  show ?case by simp
next
  case (Cons p ps)
  have tl: "sorted (map (\<lambda>d. k (fst d)) (lookupUnwind users ps))"
    using Cons by simp
  have le: "k p \<le> k (fst d)" if "d \<in> set (lookupUnwind users ps)" for d
    using Cons.prems fst_lookupUnwind [OF that] by auto
  show ?case
    using tl le by (auto simp add: lookupUnwind_Cons sorted_append comp_def sorted_same_key)
qed

lemma sorted_pipeline:
  "sorted (map (\<lambda>d. - trendingScore now (fst d))
     (lookupUnwind users (take n (sort_key (\<lambda>p. - trendingScore now p) ps))))"
proof -
  have "sorted (map (\<lambda>p. - trendingScore now p) (sort_key (\<lambda>p. - trendingScore now p) ps))"
    by (rule sorted_sort_key)
  then have "sorted (map (\<lambda>p. - trendingScore now p)
               (take n (sort_key (\<lambda>p. - trendingScore now p) ps)))"
    by (simp add: take_map [symmetric] sorted_wrt_take del: sort_key_simps)
  then show ?thesis
    by (rule sorted_lookupUnwind)
qed

lemma set_pipeline:
  "d \<in> set (lookupUnwind users (take n (sort_key k (matchStage subj posts))))
   \<Longrightarrow> fst d \<in> set (matchStage subj posts)"
proof -
  assume "d \<in> set (lookupUnwind users (take n (sort_key k (matchStage subj posts))))"
  then have "fst d \<in> set (take n (sort_key k (matchStage subj posts)))"
    by (rule fst_lookupUnwind)
  then show ?thesis
    using set_take_subset [of n "sort_key k (matchStage subj posts)"] by auto
qed

lemma set_matchStage:
  "p \<in> set (matchStage subj posts) \<Longrightarrow> p \<in> set posts \<and> status p = Published"
  by (simp add: matchStage_def)

lemma getTrendingDocs_Inr:
  "getTrendingDocs now users posts limit subj = Inr docs \<Longrightarrow>
   0 < limit \<and> (\<forall>p \<in> set (matchStage subj posts). 1 + recency now p \<noteq> 0)
   \<and> docs = lookupUnwind users (take (nat limit)
               (sort_key (\<lambda>p. - trendingScore now p) (matchStage subj posts)))"
  by (auto simp add: getTrendingDocs_def Let_def split: if_splits)

text \<open>
  C2, as the aggregation computes it. When \<open>getTrending\<close> succeeds, its result is the
  projection of documents that are published posts of the collection, ordered by
  descending trending score, and the trending score of each is
  (likeCount*2 + saveCount*3 + views*0.1 + rating.average*20) / (1 + recencyDays) with
  recencyDays = (now - publishedAt) / 86400000: the popularity score without its comment
  term, divided by (1 + recencyDays).
\<close>

theorem getTrending_ranking:
  assumes "getTrendingDocs now users posts limit subj = Inr docs"
  shows "trendingScore now p =
           (real (length (likes p)) * 2 + real (length (saves p)) * 3
            + real (views p) * 0.1 + average (rating p) * 20)
           / (1 + real_of_int (now - publishedAt p) / 86400000)
    \<and> trendingScore now p =
           (popularityScore p - real (commentsCountOr0 p) * 1.5)
           / (1 + real_of_int (now - publishedAt p) / 86400000)
    \<and> getTrending now users posts limit subj = Inr (map projectStage docs)
    \<and> sorted_wrt (\<lambda>a b. trendingScore now (fst b) \<le> trendingScore now (fst a)) docs
    \<and> (\<forall>d \<in> set docs.
          fst d \<in> set posts \<and> status (fst d) = Published
          \<and> 1 + real_of_int (now - publishedAt (fst d)) / 86400000 \<noteq> 0)"
proof -
  note h = getTrendingDocs_Inr [OF assms]
  have docs: "docs = lookupUnwind users (take (nat limit)
               (sort_key (\<lambda>p. - trendingScore now p) (matchStage subj posts)))"
    using h by simp
  have nz: "\<forall>p \<in> set (matchStage subj posts). 1 + recency now p \<noteq> 0"
    using h by simp
  have a: "getTrending now users posts limit subj = Inr (map projectStage docs)"
    using assms by (simp add: getTrending_def)
  have "sorted (map (\<lambda>d. - trendingScore now (fst d)) docs)"
    unfolding docs by (rule sorted_pipeline)
  then have b: "sorted_wrt (\<lambda>a b. trendingScore now (fst b) \<le> trendingScore now (fst a)) docs"
    by (simp add: sorted_map)
  have f: "trendingScore now p =
              (real (length (likes p)) * 2 + real (length (saves p)) * 3
               + real (views p) * 0.1 + average (rating p) * 20)
              / (1 + real_of_int (now - publishedAt p) / 86400000)"
    by (simp add: trendingScore_def score_def recency_def)
  have g: "popularityScore p - real (commentsCountOr0 p) * 1.5 =
              real (length (likes p)) * 2 + real (length (saves p)) * 3
               + real (views p) * 0.1 + average (rating p) * 20"
    by (simp add: popularityScore_def likesCount_def savesCount_def)
  have c: "fst d \<in> set posts \<and> status (fst d) = Published
      \<and> 1 + real_of_int (now - publishedAt (fst d)) / 86400000 \<noteq> 0" if "d \<in> set docs" for d
  proof -
    have m: "fst d \<in> set (matchStage subj posts)"
      using that unfolding docs by (rule set_pipeline)
    have "1 + recency now (fst d) \<noteq> 0"
      using nz m by blast
    then have "1 + real_of_int (now - publishedAt (fst d)) / 86400000 \<noteq> 0"
      by (simp add: recency_def)
    then show ?thesis
      using set_matchStage [OF m] by simp
  qed
  show ?thesis
    using a b c f g by simp
qed

theorem getTrending_ranking_witness:
  "getTrendingDocs 0 [exampleUser] [examplePost, ratedPost] 10 None
     = Inr [(ratedPost, exampleUser), (examplePost, exampleUser)]
   \<and> getTrending 0 [exampleUser] [examplePost, ratedPost] 10 None
     = Inr [projectStage (ratedPost, exampleUser), projectStage (examplePost, exampleUser)]
   \<and> trendingScore 0 examplePost \<le> trendingScore 0 ratedPost
   \<and> trendingScore 0 ratedPost = 117 \<and> trendingScore 0 examplePost = 107"
proof -
  have s: "trendingScore 0 ratedPost = 117" "trendingScore 0 examplePost = 107"
    by (simp_all add: trendingScore_def score_def recency_def ratedPost_def examplePost_def)
  have m: "matchStage None [examplePost, ratedPost] = [examplePost, ratedPost]"
    by (simp add: matchStage_def falsyString_def ratedPost_def examplePost_def)
  have r: "recency 0 examplePost = 0" "recency 0 ratedPost = 0"
    by (simp_all add: recency_def ratedPost_def examplePost_def)
  have a: "author examplePost = ''u1''" "author ratedPost = ''u1''" "user_id exampleUser = ''u1''"
    by (simp_all add: ratedPost_def examplePost_def exampleUser_def)
  have d: "getTrendingDocs 0 [exampleUser] [examplePost, ratedPost] 10 None
     = Inr [(ratedPost, exampleUser), (examplePost, exampleUser)]"
    by (simp add: getTrendingDocs_def m r s a lookupUnwind_def)
  show ?thesis
    using getTrending_ranking [OF d, of examplePost] d s by simp
qed

text \<open>
  The example post has 4 comments and was published at time 0: it is a candidate at time
  0, its popularity score is 113 and its trending score is 107.
\<close>

theorem trending_counterexample:
  "getTrendingDocs 0 [exampleUser] [examplePost] 10 None = Inr [(examplePost, exampleUser)]
   \<and> trendingScore 0 examplePost
      \<noteq> popularityScore examplePost / (1 + real_of_int (0 - publishedAt examplePost) / 86400000)"
  by (simp add: getTrendingDocs_def matchStage_def falsyString_def lookupUnwind_def
      recency_def trendingScore_def score_def popularityScore_def likesCount_def savesCount_def
      commentsCountOr0_def examplePost_def exampleUser_def)

text \<open>
  C8, as the aggregation computes it. A limit that is not positive makes the aggregation
  fail, whatever the collection; with a positive limit, a non-empty subject that no
  published post has gives the empty result.
\<close>

theorem getTrending_empty:
  "(limit \<le> 0 \<longrightarrow>
      getTrending now users posts limit subj = Inl (MongoServerError ''the limit must be positive''))
   \<and> (0 < limit \<and> subj = Some s \<and> s \<noteq> []
        \<and> (\<forall>p \<in> set posts. status p = Published \<longrightarrow> subject p \<noteq> s)
      \<longrightarrow> getTrending now users posts limit subj = Inr [])"
proof -
  have "matchStage (Some s) posts = []"
    if "s \<noteq> []" and "\<forall>p \<in> set posts. status p = Published \<longrightarrow> subject p \<noteq> s"
    using that by (auto simp add: matchStage_def falsyString_def filter_empty_conv)
  then show ?thesis
    by (auto simp add: getTrending_def getTrendingDocs_def)
qed

theorem getTrending_empty_witness:
  "getTrending 0 [exampleUser] [examplePost] 0 None
     = Inl (MongoServerError ''the limit must be positive'')
   \<and> status examplePost = Published \<and> subject examplePost \<noteq> ''physics''
   \<and> getTrending 0 [exampleUser] [examplePost] 10 (Some ''physics'') = Inr []"
proof -
  have "\<forall>p \<in> set [examplePost]. status p = Published \<longrightarrow> subject p \<noteq> ''physics''"
    by (simp add: examplePost_def)
  moreover have "status examplePost = Published \<and> subject examplePost \<noteq> ''physics''"
    by (simp add: examplePost_def)
  ultimately show ?thesis
    using getTrending_empty [of 0 0 "[exampleUser]" "[examplePost]" None]
      getTrending_empty [of 10 0 "[exampleUser]" "[examplePost]" "Some ''physics''" "''physics''"]
    by simp
qed

text \<open>With limit 0 the result is an error, not the empty sequence.\<close>

theorem limit_zero_counterexample:
  "getTrending 0 [exampleUser] [examplePost] 0 None \<noteq> Inr []"
  by (simp add: getTrending_def getTrendingDocs_def)

subsection \<open>Ratings\<close>

text \<open>
  C3. After a successful \<open>addRating\<close> with a value \<open>v\<close> from 1 to 5, the counter of \<open>v\<close>
  is one more than before and the other counters are as before, \<open>rating.count\<close> is the sum
  of the five counters, and \<open>rating.average\<close> is the weighted sum divided by the count,
  rounded to one decimal; rating 3 on the histogram {5: 2} gives the histogram
  {5: 2, 3: 1}, count 3 and average 4.3.
\<close>

theorem addRating_recomputes:
  assumes "1 \<le> v" and "v \<le> 5"
  shows "fst (addRating slugify now uid v (p, users)) = Inr ()
    \<and> details (rating (fst (snd (addRating slugify now uid v (p, users))))) v
        = details (rating p) v + 1
    \<and> (\<forall>k. k \<noteq> v \<longrightarrow> details (rating (fst (snd (addRating slugify now uid v (p, users))))) k
        = details (rating p) k)
    \<and> count (rating (fst (snd (addRating slugify now uid v (p, users)))))
        = (\<Sum>k\<leftarrow>[1, 2, 3, 4, 5].
             details (rating (fst (snd (addRating slugify now uid v (p, users))))) k)
    \<and> average (rating (fst (snd (addRating slugify now uid v (p, users)))))
        = real_of_int (round (10 *
            (real_of_int (\<Sum>k\<leftarrow>[1, 2, 3, 4, 5].
               k * int (details (rating (fst (snd (addRating slugify now uid v (p, users))))) k))
             / real (count (rating (fst (snd (addRating slugify now uid v (p, users))))))))) / 10
    \<and> count (rating (fst (snd (addRating slugify now uid 3 (ratedPost, users))))) = 3
    \<and> average (rating (fst (snd (addRating slugify now uid 3 (ratedPost, users))))) = 4.3"
proof -
  let ?r = "rating (fst (snd (addRating slugify now uid v (p, users))))"
  note r = addRating_rating [OF assms, of slugify now uid p users]
  have ok: "fst (addRating slugify now uid v (p, users)) = Inr ()"
    using assms by (simp add: addRating_outcome del: addRating.simps)
  have d: "details ?r = (details (rating p))(v := details (rating p) v + 1)"
    unfolding r by (simp add: Let_def)
  have c: "count ?r = details ?r 1 + details ?r 2 + details ?r 3 + details ?r 4 + details ?r 5"
    unfolding d unfolding r by (simp add: Let_def del: fun_upd_apply)
  have a: "average ?r = averageSetter
      (real_of_int (1 * int (details ?r 1) + 2 * int (details ?r 2) + 3 * int (details ?r 3)
         + 4 * int (details ?r 4) + 5 * int (details ?r 5)) / real (count ?r))"
    unfolding c unfolding d unfolding r by (simp add: Let_def del: fun_upd_apply)
  have w: "(\<Sum>k\<leftarrow>[1, 2, 3, 4, 5]. k * int (details ?r k))
      = 1 * int (details ?r 1) + 2 * int (details ?r 2) + 3 * int (details ?r 3)
         + 4 * int (details ?r 4) + 5 * int (details ?r 5)"
    by simp
  have a': "average ?r = real_of_int (round (10 *
            (real_of_int (\<Sum>k\<leftarrow>[1, 2, 3, 4, 5]. k * int (details ?r k)) / real (count ?r)))) / 10"
    unfolding w a averageSetter_round by (rule refl)
  have s: "rating (fst (snd (addRating slugify now uid 3 (ratedPost, users))))
      = \<lparr>average = 4.3, count = 3, details = (\<lambda>k. if k = 5 then 2 else 0)(3 := 1)\<rparr>"
    by (simp add: addRating_rating ratedPost_def examplePost_def Let_def averageSetter_def
          mathRound_def)
  have c': "count ?r = (\<Sum>k\<leftarrow>[1, 2, 3, 4, 5]. details ?r k)"
    unfolding c by simp
  show ?thesis
    unfolding s using ok d c' a' by simp
qed

theorem addRating_recomputes_witness:
  "(1::int) \<le> 3 \<and> (3::int) \<le> 5
   \<and> fst (addRating id 7 ''u2'' 3 (ratedPost, [exampleUser])) = Inr ()
   \<and> details (rating (fst (snd (addRating id 7 ''u2'' 3 (ratedPost, [exampleUser]))))) 3 = 1
   \<and> count (rating (fst (snd (addRating id 7 ''u2'' 3 (ratedPost, [exampleUser]))))) = 3
   \<and> average (rating (fst (snd (addRating id 7 ''u2'' 3 (ratedPost, [exampleUser]))))) = 4.3"
proof -
  have a: "(1::int) \<le> 3" and b: "(3::int) \<le> 5"
    by simp_all
  have d: "details (rating ratedPost) 3 = 0"
    by (simp add: ratedPost_def examplePost_def)
  note t = addRating_recomputes [OF a b, of id 7 "''u2''" ratedPost "[exampleUser]"]
  have t1: "fst (addRating id 7 ''u2'' 3 (ratedPost, [exampleUser])) = Inr ()"
    using t by blast
  have "details (rating (fst (snd (addRating id 7 ''u2'' 3 (ratedPost, [exampleUser]))))) 3
      = details (rating ratedPost) 3 + 1"
    using t by blast
  then have t2: "details (rating (fst (snd (addRating id 7 ''u2'' 3
      (ratedPost, [exampleUser]))))) 3 = 1"
    using d by simp
  have t3: "count (rating (fst (snd (addRating id 7 ''u2'' 3 (ratedPost, [exampleUser]))))) = 3"
    using t by blast
  have t4: "average (rating (fst (snd (addRating id 7 ''u2'' 3 (ratedPost, [exampleUser])))))
      = 4.3"
    using t by blast
  show ?thesis
    using a b t1 t2 t3 t4 by blast
qed

text \<open>
  C4. \<open>addRating\<close> throws its error exactly when the value is below 1 or above 5 (0 and 6
  for example) and succeeds exactly for the values from 1 to 5; when it throws, the state
  is the one before the call.
\<close>

theorem addRating_validation:
  "(fst (addRating slugify now uid v st) = Inl (Error ''Rating must be between 1 and 5''))
     = (v < 1 \<or> 5 < v)
   \<and> (fst (addRating slugify now uid v st) = Inr ()) = (1 \<le> v \<and> v \<le> 5)
   \<and> (v < 1 \<or> 5 < v \<longrightarrow> snd (addRating slugify now uid v st) = st)
   \<and> fst (addRating slugify now uid 0 st) \<noteq> Inr ()
   \<and> fst (addRating slugify now uid 6 st) \<noteq> Inr ()"
proof (cases st)
  case (Pair p users)
  show ?thesis
    unfolding Pair by (auto simp add: addRating_outcome addRating_failure_state)
qed

theorem addRating_validation_witness:
  "fst (addRating id 7 ''u2'' 0 (examplePost, [exampleUser]))
     = Inl (Error ''Rating must be between 1 and 5'')
   \<and> snd (addRating id 7 ''u2'' 0 (examplePost, [exampleUser])) = (examplePost, [exampleUser])
   \<and> fst (addRating id 7 ''u2'' 6 (examplePost, [exampleUser]))
     = Inl (Error ''Rating must be between 1 and 5'')
   \<and> snd (addRating id 7 ''u2'' 6 (examplePost, [exampleUser])) = (examplePost, [exampleUser])
   \<and> fst (addRating id 7 ''u2'' 1 (examplePost, [exampleUser])) = Inr ()
   \<and> fst (addRating id 7 ''u2'' 5 (examplePost, [exampleUser])) = Inr ()"
  using addRating_validation [of id 7 "''u2''" 0 "(examplePost, [exampleUser])"]
    addRating_validation [of id 7 "''u2''" 6 "(examplePost, [exampleUser])"]
    addRating_validation [of id 7 "''u2''" 1 "(examplePost, [exampleUser])"]
    addRating_validation [of id 7 "''u2''" 5 "(examplePost, [exampleUser])"]
  by simp

subsection \<open>Views\<close>

text \<open>
  C6. \<open>incrementViews\<close> adds exactly 1 to the view counter. It appends the entry
  (user, now) to the view history when a user is given and no entry of that user in the
  history is less than 24 hours old, and leaves the history as it is otherwise; so a
  repeat view within 24 hours counts as a view and adds no entry.
\<close>

theorem incrementViews_counts:
  "views (fst (incrementViews slugify now uid (p, users))) = views p + 1
   \<and> viewHistory (fst (incrementViews slugify now uid (p, users))) =
       (case uid of
          None \<Rightarrow> viewHistory p
        | Some u \<Rightarrow>
            if u \<noteq> [] \<and> (\<forall>e \<in> set (viewHistory p). userId e = u \<longrightarrow> 86400000 \<le> now - viewedAt e)
            then viewHistory p @ [\<lparr>userId = u, viewedAt = now\<rparr>]
            else viewHistory p)
   \<and> (\<forall>u. uid = Some u
          \<and> (\<exists>e \<in> set (viewHistory p). userId e = u \<and> 0 \<le> now - viewedAt e
                \<and> now - viewedAt e < 86400000)
        \<longrightarrow> viewHistory (fst (incrementViews slugify now uid (p, users))) = viewHistory p)"
proof (intro conjI)
  show "views (fst (incrementViews slugify now uid (p, users))) = views p + 1"
    by (simp add: incrementViews.simps Let_def postSave_views split: option.split)
  show h: "viewHistory (fst (incrementViews slugify now uid (p, users))) =
       (case uid of
          None \<Rightarrow> viewHistory p
        | Some u \<Rightarrow>
            if u \<noteq> [] \<and> (\<forall>e \<in> set (viewHistory p). userId e = u \<longrightarrow> 86400000 \<le> now - viewedAt e)
            then viewHistory p @ [\<lparr>userId = u, viewedAt = now\<rparr>]
            else viewHistory p)"
    by (auto simp add: incrementViews.simps Let_def postSave_viewHistory find_None_iff_all
          not_less split: option.split)
  show "\<forall>u. uid = Some u
          \<and> (\<exists>e \<in> set (viewHistory p). userId e = u \<and> 0 \<le> now - viewedAt e
                \<and> now - viewedAt e < 86400000)
        \<longrightarrow> viewHistory (fst (incrementViews slugify now uid (p, users))) = viewHistory p"
    unfolding h by (auto split: option.split)
qed

theorem incrementViews_counts_witness:
  "viewHistory examplePost = [\<lparr>userId = ''u2'', viewedAt = 1000\<rparr>]
   \<and> views (fst (incrementViews id 2000 (Some ''u2'') (examplePost, [exampleUser]))) = 51
   \<and> viewHistory (fst (incrementViews id 2000 (Some ''u2'') (examplePost, [exampleUser])))
       = [\<lparr>userId = ''u2'', viewedAt = 1000\<rparr>]
   \<and> views (fst (incrementViews id 86401000 (Some ''u2'') (examplePost, [exampleUser]))) = 51
   \<and> viewHistory (fst (incrementViews id 86401000 (Some ''u2'') (examplePost, [exampleUser])))
       = [\<lparr>userId = ''u2'', viewedAt = 1000\<rparr>, \<lparr>userId = ''u2'', viewedAt = 86401000\<rparr>]
   \<and> viewHistory (fst (incrementViews id 2000 (Some ''u7'') (examplePost, [exampleUser])))
       = [\<lparr>userId = ''u2'', viewedAt = 1000\<rparr>, \<lparr>userId = ''u7'', viewedAt = 2000\<rparr>]
   \<and> viewHistory (fst (incrementViews id 2000 None (examplePost, [exampleUser])))
       = [\<lparr>userId = ''u2'', viewedAt = 1000\<rparr>]"
proof -
  have v: "views examplePost = 50"
    and h: "viewHistory examplePost = [\<lparr>userId = ''u2'', viewedAt = 1000\<rparr>]"
    by (simp_all add: examplePost_def)
  show ?thesis
    using incrementViews_counts [of id 2000 "Some ''u2''" examplePost "[exampleUser]"]
      incrementViews_counts [of id 86401000 "Some ''u2''" examplePost "[exampleUser]"]
      incrementViews_counts [of id 2000 "Some ''u7''" examplePost "[exampleUser]"]
      incrementViews_counts [of id 2000 None examplePost "[exampleUser]"]
    unfolding v h by simp
qed

subsection \<open>Last activity\<close>

text \<open>
  C10. Every save of a post sets \<open>lastActivity\<close> to the current time: a plain save, the
  save inside \<open>incrementViews\<close>, and the save inside a successful \<open>addRating\<close>.
\<close>

theorem save_sets_lastActivity:
  "lastActivity (fst (postSave slugify now (p, users))) = now
   \<and> lastActivity (fst (incrementViews slugify now uid (p, users))) = now
   \<and> (fst (addRating slugify now rater v (p, users)) = Inr ()
        \<longrightarrow> lastActivity (fst (snd (addRating slugify now rater v (p, users)))) = now)"
  by (simp add: postSave_lastActivity incrementViews_lastActivity addRating_outcome
        addRating_lastActivity)

theorem save_sets_lastActivity_witness:
  "fst (addRating id 7 ''u2'' 4 (examplePost, [exampleUser])) = Inr ()
   \<and> lastActivity (fst (snd (addRating id 7 ''u2'' 4 (examplePost, [exampleUser])))) = 7
   \<and> lastActivity (fst (incrementViews id 7 None (examplePost, [exampleUser]))) = 7
   \<and> lastActivity (fst (postSave id 7 (examplePost, [exampleUser]))) = 7"
proof -
  have ok: "fst (addRating id 7 ''u2'' 4 (examplePost, [exampleUser])) = Inr ()"
    by (simp add: addRating_outcome)
  show ?thesis
    using save_sets_lastActivity [of id 7 examplePost "[exampleUser]" None "''u2''" 4] ok
    by simp
qed

subsection \<open>Comments\<close>

lemma commentPreSave_depth:
  "depth (commentPreSave now c) = (if parentComment c \<noteq> None then 1 else depth c)"
  by (simp add: commentPreSave_def Let_def)

lemma commentSave_depth:
  "commentSave now c st = Inr (c', st') \<Longrightarrow>
   depth c' = (if parentComment c \<noteq> None then 1 else depth c)"
  by (auto simp add: commentSave_def Let_def commentPreSave_depth split: if_splits)


text \<open>
  What the pre-save hook records for an existing comment whose content was modified: one
  entry, whose content is \<open>_previousContent\<close> when that holds a non-empty string, and the
  content that the document has at the save otherwise.
\<close>

lemma commentPreSave_edit:
  "contentModified c \<Longrightarrow> \<not> isNew c \<Longrightarrow>
   edited (commentPreSave now c)
   \<and> editHistory (commentPreSave now c) =
       editHistory c @
         [\<lparr>e_content = (case previousContent c of
                           None \<Rightarrow> c_content c
                         | Some old \<Rightarrow> if old = [] then c_content c else old),
           editedAt = now, reason = ''User edit''\<rparr>]"
  by (simp add: commentPreSave_def previousOrCurrent_def Let_def split: option.split)

lemma commentPreSave_edit_previous:
  "contentModified c \<Longrightarrow> \<not> isNew c \<Longrightarrow> previousContent c = Some old \<Longrightarrow> old \<noteq> [] \<Longrightarrow>
   e_content (last (editHistory (commentPreSave now c))) = old"
  by (simp add: commentPreSave_edit)

text \<open>
  C7. An existing active comment with the content "old" is edited to "new" and saved,
  with no \<open>_previousContent\<close> on the document. The save passes validation and sets
  \<open>edited\<close>, and the entry that it appends to \<open>editHistory\<close> has the time of the save and
  the content "new", the content after the edit, not the content "old" that the comment
  had before.
\<close>

theorem edit_history_records_new_content:
  "c_content exampleComment = ''old''
   \<and> c_status exampleComment = Active
   \<and> editedComment = exampleComment\<lparr>c_content := ''new'', contentModified := True\<rparr>
   \<and> \<not> isNew editedComment
   \<and> previousContent editedComment = None
   \<and> commentValid editedComment
   \<and> edited (commentPreSave 5 editedComment)
   \<and> editHistory (commentPreSave 5 editedComment) =
       [\<lparr>e_content = ''new'', editedAt = 5, reason = ''User edit''\<rparr>]
   \<and> map_sum (\<lambda>e. ()) (\<lambda>r. editHistory (fst r))
         (commentSave 5 editedComment ([examplePost], [exampleUser])) =
       Inr [\<lparr>e_content = ''new'', editedAt = 5, reason = ''User edit''\<rparr>]
   \<and> e_content (last (editHistory (commentPreSave 5 editedComment)))
       \<noteq> c_content exampleComment"
  by (simp add: editedComment_def exampleComment_def commentValid_def commentSave_def
        commentPreSave_def previousOrCurrent_def Let_def)

subsection \<open>Accepted answer\<close>

lemma length_filter_key_le_1:
  "distinct (map f xs) \<Longrightarrow> length (filter (\<lambda>d. f d = k) xs) \<le> Suc 0"
proof (induction xs)
  case Nil
  show ?case by simp
next
  case (Cons x xs)
  show ?case
  proof (cases "f x = k")
    case True
    have "f x \<notin> f ` set xs"
      using Cons.prems by simp
    then have "\<forall>y \<in> set xs. f y \<noteq> k"
      using True by blast
    then have "filter (\<lambda>d. f d = k) xs = []"
      by (simp add: filter_empty_conv)
    with True show ?thesis by simp
  next
    case False
    with Cons show ?thesis by simp
  qed
qed

lemma length_filter_mono:
  "(\<And>x. x \<in> set xs \<Longrightarrow> P x \<Longrightarrow> Q x) \<Longrightarrow> length (filter P xs) \<le> length (filter Q xs)"
  by (induction xs) auto

lemma acceptAnswer_cases:
  "acceptAnswer c (p, comments) =
     (if postType p = Question \<and> c_post c = post_id p
      then (Inr (), (p\<lparr>isSolved := True\<rparr>, map (acceptStep c p) comments))
      else (Inl (InvalidStateError (if postType p \<noteq> Question then ''not a question''
                                      else ''other post'')), (p, comments)))"
  by (simp add: acceptAnswer_def acceptStep_def Let_def comp_def)

lemma acceptStep_fields:
  "comment_id (acceptStep c p d) = comment_id d"
  "c_post (acceptStep c p d) = c_post d"
  "c_post d = post_id p \<Longrightarrow> isAcceptedAnswer (acceptStep c p d) = (comment_id d = comment_id c)"
  by (simp_all add: acceptStep_def Let_def)

lemma acceptedOf_after:
  assumes "distinct (map comment_id comments)"
  shows "length (acceptedOf (p\<lparr>isSolved := True\<rparr>) (map (acceptStep c p) comments)) \<le> 1"
proof -
  have "length (acceptedOf (p\<lparr>isSolved := True\<rparr>) (map (acceptStep c p) comments))
      = length (filter (\<lambda>d. c_post (acceptStep c p d) = post_id p
                            \<and> isAcceptedAnswer (acceptStep c p d)) comments)"
    by (simp add: acceptedOf_def filter_map comp_def)
  also have "\<dots> \<le> length (filter (\<lambda>d. comment_id d = comment_id c) comments)"
    by (rule length_filter_mono) (auto simp add: acceptStep_fields)
  also have "\<dots> \<le> 1"
    using length_filter_key_le_1 [OF assms] by simp
  finally show ?thesis .
qed

lemma answerInv_step: "answerInv st \<Longrightarrow> answerInv (snd (acceptAnswer c st))"
proof (cases st)
  case (Pair p comments)
  assume "answerInv st"
  then have d: "distinct (map comment_id comments)"
    and l: "length (acceptedOf p comments) \<le> 1"
    unfolding Pair by (simp_all add: answerInv_def)
  show ?thesis
    unfolding Pair using d l acceptedOf_after [OF d, of p c]
    by (simp add: acceptAnswer_cases answerInv_def acceptStep_fields comp_def)
qed

lemma answerInv_run: "answerInv st \<Longrightarrow> answerInv (acceptAnswers cs st)"
  by (induction cs arbitrary: st) (simp_all add: answerInv_step)

lemma acceptAnswer_post:
  "postType (fst (snd (acceptAnswer c st))) = postType (fst st)"
  "post_id (fst (snd (acceptAnswer c st))) = post_id (fst st)"
  by (cases st; simp add: acceptAnswer_cases)+

lemma acceptAnswers_post:
  "postType (fst (acceptAnswers cs st)) = postType (fst st)
   \<and> post_id (fst (acceptAnswers cs st)) = post_id (fst st)"
  by (induction cs arbitrary: st) (simp_all add: acceptAnswer_post)

lemma acceptAnswers_snoc:
  "acceptAnswers (cs @ [c]) st = snd (acceptAnswer c (acceptAnswers cs st))"
  by (induction cs arbitrary: st) simp_all

lemma acceptAnswer_marks:
  assumes "postType (fst st) = Question" and "c_post c = post_id (fst st)"
  shows "fst (acceptAnswer c st) = Inr ()
    \<and> isSolved (fst (snd (acceptAnswer c st)))
    \<and> (\<forall>d \<in> set (snd (snd (acceptAnswer c st))).
          c_post d = post_id (fst st) \<longrightarrow> isAcceptedAnswer d = (comment_id d = comment_id c))"
proof (cases st)
  case (Pair p comments)
  show ?thesis
    using assms unfolding Pair by (auto simp add: acceptAnswer_cases acceptStep_fields)
qed

lemma acceptAnswers_last:
  assumes "postType p = Question" and "cs \<noteq> []" and "c_post (last cs) = post_id p"
  shows "isSolved (fst (acceptAnswers cs (p, comments)))
    \<and> (\<forall>d \<in> set (snd (acceptAnswers cs (p, comments))).
          c_post d = post_id p \<longrightarrow> isAcceptedAnswer d = (comment_id d = comment_id (last cs)))"
proof -
  let ?st = "acceptAnswers (butlast cs) (p, comments)"
  have run: "acceptAnswers cs (p, comments) = snd (acceptAnswer (last cs) ?st)"
    using assms(2) acceptAnswers_snoc [of "butlast cs" "last cs" "(p, comments)"] by simp
  have q: "postType (fst ?st) = Question" and i: "post_id (fst ?st) = post_id p"
    using assms(1) acceptAnswers_post [of "butlast cs" "(p, comments)"] by simp_all
  have b: "c_post (last cs) = post_id (fst ?st)"
    using assms(3) i by simp
  show ?thesis
    unfolding run using acceptAnswer_marks [OF q b] i by simp
qed

text \<open>
  C9. From a collection with unique comment ids in which at most one comment of the post
  is marked as accepted, any sequence of \<open>acceptAnswer\<close> calls leaves at most one comment
  of the post marked. A call that succeeds sets \<open>isSolved\<close>, and afterwards a comment of
  the post is marked exactly when it is the given one; after a sequence of calls on a
  question post that ends with a comment of the post, the post is solved and the marked
  comment is the last one given.
\<close>

theorem acceptAnswer_single:
  assumes "distinct (map comment_id comments)"
    and "length (acceptedOf p comments) \<le> 1"
  shows "length (acceptedOf (fst (acceptAnswers cs (p, comments)))
                   (snd (acceptAnswers cs (p, comments)))) \<le> 1
    \<and> (postType p = Question \<and> cs \<noteq> [] \<and> c_post (last cs) = post_id p
         \<longrightarrow> isSolved (fst (acceptAnswers cs (p, comments)))
             \<and> (\<forall>d \<in> set (snd (acceptAnswers cs (p, comments))).
                   c_post d = post_id p
                   \<longrightarrow> isAcceptedAnswer d = (comment_id d = comment_id (last cs))))
    \<and> (fst (acceptAnswer c (p, comments)) = Inr ()
         \<longrightarrow> isSolved (fst (snd (acceptAnswer c (p, comments))))
             \<and> length (acceptedOf (fst (snd (acceptAnswer c (p, comments))))
                         (snd (snd (acceptAnswer c (p, comments))))) \<le> 1
             \<and> (\<forall>d \<in> set (snd (snd (acceptAnswer c (p, comments)))).
                   c_post d = post_id p
                   \<longrightarrow> isAcceptedAnswer d = (comment_id d = comment_id c)))"
proof -
  have "answerInv (p, comments)"
    using assms by (simp add: answerInv_def)
  then have "answerInv (acceptAnswers cs (p, comments))"
    by (rule answerInv_run)
  then have a: "length (acceptedOf (fst (acceptAnswers cs (p, comments)))
                   (snd (acceptAnswers cs (p, comments)))) \<le> 1"
    by (simp add: answerInv_def)
  have b: "isSolved (fst (snd (acceptAnswer c (p, comments))))
             \<and> length (acceptedOf (fst (snd (acceptAnswer c (p, comments))))
                         (snd (snd (acceptAnswer c (p, comments))))) \<le> 1
             \<and> (\<forall>d \<in> set (snd (snd (acceptAnswer c (p, comments)))).
                   c_post d = post_id p
                   \<longrightarrow> isAcceptedAnswer d = (comment_id d = comment_id c))"
    if "fst (acceptAnswer c (p, comments)) = Inr ()"
  proof -
    have ok: "postType p = Question \<and> c_post c = post_id p"
      using that by (simp add: acceptAnswer_cases split: if_splits)
    show ?thesis
      using ok acceptedOf_after [OF assms(1), of p c]
      by (auto simp add: acceptAnswer_cases acceptStep_fields)
  qed
  show ?thesis
    using a b acceptAnswers_last [of p cs comments] by blast
qed

theorem acceptAnswer_single_witness:
  "distinct (map comment_id [exampleComment, otherComment])
   \<and> length (acceptedOf examplePost [exampleComment, otherComment]) \<le> 1
   \<and> fst (acceptAnswer exampleComment (examplePost, [exampleComment, otherComment])) = Inr ()
   \<and> map isAcceptedAnswer
        (snd (acceptAnswers [exampleComment] (examplePost, [exampleComment, otherComment])))
       = [True, False]
   \<and> length (acceptedOf (fst (acceptAnswers [exampleComment, otherComment, exampleComment]
                                 (examplePost, [exampleComment, otherComment])))
                (snd (acceptAnswers [exampleComment, otherComment, exampleComment]
                        (examplePost, [exampleComment, otherComment])))) \<le> 1
   \<and> isSolved (fst (acceptAnswers [exampleComment, otherComment, exampleComment]
                      (examplePost, [exampleComment, otherComment])))"
proof -
  have a: "distinct (map comment_id [exampleComment, otherComment])"
    by (simp add: exampleComment_def otherComment_def)
  have b: "length (acceptedOf examplePost [exampleComment, otherComment]) \<le> 1"
    by (simp add: acceptedOf_def exampleComment_def otherComment_def examplePost_def)
  have c: "fst (acceptAnswer exampleComment (examplePost, [exampleComment, otherComment])) = Inr ()"
    by (simp add: acceptAnswer_def exampleComment_def otherComment_def examplePost_def Let_def)
  have d: "map isAcceptedAnswer
        (snd (acceptAnswers [exampleComment] (examplePost, [exampleComment, otherComment])))
       = [True, False]"
    by (simp add: acceptAnswer_def exampleComment_def otherComment_def examplePost_def Let_def)
  have e: "postType examplePost = Question" "c_post exampleComment = post_id examplePost"
    by (simp_all add: exampleComment_def examplePost_def)
  show ?thesis
    using acceptAnswer_single [OF a b,
        of "[exampleComment, otherComment, exampleComment]" exampleComment] a b c d e
    by simp
qed

end
